theory Spec2Isabelle
  imports Complex_Main "HOL-Library.AList" "HOL-Library.Multiset"
begin

section \<open>Data model\<close>

text \<open>
  The engine of \<^verbatim>\<open>src/utils/portfolio.py\<close> works on pandas data frames. A frame is
  modelled as the list of its rows, a row as a record of its columns. Numbers of the
  source are Python floats; here they are real numbers, so arithmetic is exact and
  rounding is not part of the model. The column \<^verbatim>\<open>transaction_type\<close> stays a
  string, compared with \<^verbatim>\<open>'BUY'\<close> and \<^verbatim>\<open>'SELL'\<close> as the source does.
\<close>

text \<open>
  A value of the column \<^verbatim>\<open>date\<close> is one of two Python types. The CSV import converts
  the column with \<^verbatim>\<open>pd.to_datetime\<close>, so its rows hold pandas timestamps, which are
  datetimes: \<open>Datetime t\<close> is the point in time \<open>t\<close>, counted in nanoseconds, the
  resolution of a timestamp. The manual entry form passes the value of
  \<^verbatim>\<open>st.date_input\<close> to \<^verbatim>\<open>add_transaction\<close>, which stores it as it is, so its rows hold
  \<^verbatim>\<open>datetime.date\<close> objects: \<open>Date d\<close> is the calendar day \<open>d\<close>, counted in days.
\<close>

datatype pydate = Date int | Datetime int

fun is_datetime :: "pydate \<Rightarrow> bool" where
  "is_datetime (Datetime t) = True"
| "is_datetime (Date d) = False"

fun is_date :: "pydate \<Rightarrow> bool" where
  "is_date (Date d) = True"
| "is_date (Datetime t) = False"

definition ns_per_day :: int where
  "ns_per_day = 86400000000000"

record transaction =
  ticker :: string
  date :: pydate
  transaction_type :: string
  quantity :: real
  price :: real

text \<open>A lot is the tuple \<^verbatim>\<open>(quantity, price)\<close> of the source.\<close>

type_synonym lot = "real \<times> real"

text \<open>
  \<^verbatim>\<open>lots\<close> is a Python dict from ticker to the list of its lots. A dict iterates in
  insertion order and the holdings are emitted in that order, so it is an association
  list: \<^const>\<open>AList.update\<close> replaces the value of a present key in place and appends an
  absent key at the end.
\<close>

type_synonym lots_dict = "(string \<times> lot list) list"

text \<open>
  A row of the holdings frame. Its columns \<^verbatim>\<open>ticker\<close> and \<^verbatim>\<open>quantity\<close> are the fields
  \<open>h_ticker\<close> and \<open>h_quantity\<close>, the plain names being those of a transaction.
\<close>

record holding =
  h_ticker :: string
  h_quantity :: real
  avg_cost_basis :: real

section \<open>FIFO inventory: \<^verbatim>\<open>calculate_holdings_fifo\<close>\<close>

text \<open>
  The inner loop of a SELL (lines 78 to 91):
  \<^verbatim>\<open>while remaining_quantity > 0 and lots[ticker]:\<close> pops the front lot when it is not
  larger than what remains to be sold, and otherwise reduces it in place. The function
  returns the final \<^verbatim>\<open>remaining_quantity\<close> together with the queue.
\<close>

fun sell_fifo :: "real \<Rightarrow> lot list \<Rightarrow> real \<times> lot list" where
  "sell_fifo remaining_quantity [] = (remaining_quantity, [])"
| "sell_fifo remaining_quantity ((lot_quantity, lot_price) # rest) =
     (if remaining_quantity > 0 then
        (if lot_quantity \<le> remaining_quantity
         then sell_fifo (remaining_quantity - lot_quantity) rest
         else (0, (lot_quantity - remaining_quantity, lot_price) # rest))
      else (remaining_quantity, (lot_quantity, lot_price) # rest))"

text \<open>The queue of a ticker; a ticker that is not a key has no lots.\<close>

definition lots_of :: "lots_dict \<Rightarrow> string \<Rightarrow> lot list" where
  "lots_of lots t = (case map_of lots t of None \<Rightarrow> [] | Some ticker_lots \<Rightarrow> ticker_lots)"

text \<open>
  One iteration of the loop over the rows (lines 64 to 91): the ticker gets an empty
  queue when it is new, a BUY appends a lot, a SELL runs the inner loop and drops what
  it could not sell, and a row of any other type changes nothing more.
\<close>

definition process_row :: "transaction \<Rightarrow> lots_dict \<Rightarrow> lots_dict" where
  "process_row row lots =
     (let lots1 = (if map_of lots (ticker row) = None
                   then lots @ [(ticker row, [])] else lots)
      in if transaction_type row = ''BUY'' then
           AList.update (ticker row)
             (lots_of lots1 (ticker row) @ [(quantity row, price row)]) lots1
         else if transaction_type row = ''SELL'' then
           AList.update (ticker row)
             (snd (sell_fifo (quantity row) (lots_of lots1 (ticker row)))) lots1
         else lots1)"

text \<open>The loop over the rows, from the lots it starts with.\<close>

definition process_rows :: "transaction list \<Rightarrow> lots_dict \<Rightarrow> lots_dict" where
  "process_rows rows lots = fold process_row rows lots"

text \<open>The loop that builds the holdings (lines 94 to 108).\<close>

definition total_quantity :: "lot list \<Rightarrow> real" where
  "total_quantity ticker_lots = sum_list (map fst ticker_lots)"

definition total_cost :: "lot list \<Rightarrow> real" where
  "total_cost ticker_lots = sum_list (map (\<lambda>(qty, price). qty * price) ticker_lots)"

definition holding_of :: "string \<times> lot list \<Rightarrow> holding" where
  "holding_of e = \<lparr>h_ticker = fst e, h_quantity = total_quantity (snd e),
                   avg_cost_basis = total_cost (snd e) / total_quantity (snd e)\<rparr>"

definition build_holdings :: "lots_dict \<Rightarrow> holding list" where
  "build_holdings lots =
     concat (map (\<lambda>e. if total_quantity (snd e) > 0 then [holding_of e] else []) lots)"

text \<open>
  \<^verbatim>\<open>df.sort_values('date')\<close> is pandas' sort, which is not code of this repository; it is
  the parameter \<open>sort_values\<close>. What the theorems need of it is stated where they need
  it: \<open>sorts_by_date\<close> says that its result on a frame has the rows of the frame,
  oldest first. For that order a row is placed in time by \<open>date_key\<close>, a calendar day
  at its midnight.
\<close>

definition date_key :: "transaction \<Rightarrow> int" where
  "date_key row = (case date row of Date d \<Rightarrow> d * ns_per_day | Datetime t \<Rightarrow> t)"

definition sorts_by_date :: "(transaction list \<Rightarrow> transaction list) \<Rightarrow> transaction list \<Rightarrow> bool" where
  "sorts_by_date sort_values df \<longleftrightarrow>
     sorted (map date_key (sort_values df)) \<and> mset (sort_values df) = mset df"

text \<open>
  The function itself. The frame may be \<^verbatim>\<open>None\<close>; the empty frame that is returned for
  no input, and the frame built from no holding, are both the empty list.
\<close>

definition calculate_holdings_fifo ::
  "(transaction list \<Rightarrow> transaction list) \<Rightarrow> transaction list option \<Rightarrow> holding list" where
  "calculate_holdings_fifo sort_values transactions_df =
     (case transactions_df of
        None \<Rightarrow> []
      | Some rows \<Rightarrow>
          if length rows = 0 then []
          else build_holdings (process_rows (sort_values rows) []))"

subsection \<open>Quantities the conservation law speaks of\<close>

text \<open>
  The source keeps no running totals. The quantity held in all queues and the quantity
  bought are sums over its data.
\<close>

definition lots_total :: "lots_dict \<Rightarrow> real" where
  "lots_total lots = sum_list (map (\<lambda>e. total_quantity (snd e)) lots)"

definition buy_quantity :: "transaction list \<Rightarrow> real" where
  "buy_quantity rows =
     sum_list (map quantity (filter (\<lambda>row. transaction_type row = ''BUY'') rows))"

text \<open>
  The quantity that the SELL rows of a ledger really match, in the words of the
  conservation law and without the loop of the source: a book \<open>held\<close> says how much of
  each ticker is held; a BUY adds its quantity to the book; a SELL matches its quantity
  or, when less is held, what is held, so that the oversell remainder does not count,
  and takes what it matched off the book.
\<close>

fun matched_quantity :: "transaction list \<Rightarrow> (string \<Rightarrow> real) \<Rightarrow> real" where
  "matched_quantity [] held = 0"
| "matched_quantity (row # rows) held =
     (if transaction_type row = ''BUY'' then
        matched_quantity rows (held(ticker row := held (ticker row) + quantity row))
      else if transaction_type row = ''SELL'' then
        min (quantity row) (held (ticker row))
        + matched_quantity rows
            (held(ticker row := held (ticker row) - min (quantity row) (held (ticker row))))
      else matched_quantity rows held)"

text \<open>The book of a lots dict: what the queue of each ticker holds.\<close>

definition held_of :: "lots_dict \<Rightarrow> string \<Rightarrow> real" where
  "held_of lots t = total_quantity (lots_of lots t)"

text \<open>Every lot of every queue has a positive quantity.\<close>

definition lots_positive :: "lots_dict \<Rightarrow> bool" where
  "lots_positive lots \<longleftrightarrow> list_all (\<lambda>e. list_all (\<lambda>l. 0 < fst l) (snd e)) lots"

text \<open>
  What first-in-first-out asks of a SELL of \<open>r\<close> units that uses up exactly the \<open>k\<close>
  oldest lots: lot \<open>k\<close>, when there is one, stays at the front with the rest of \<open>r\<close>
  taken off its quantity and its price unchanged, the lots behind it are as they were,
  and nothing is left to sell; when no lot is left, the unsold rest is what remains.
\<close>

definition fifo_consumed :: "nat \<Rightarrow> real \<Rightarrow> lot list \<Rightarrow> real \<times> lot list" where
  "fifo_consumed k r ls =
     (if k < length ls
      then (0, (fst (ls ! k) - (r - total_quantity (take k ls)), snd (ls ! k)) # drop (Suc k) ls)
      else (r - total_quantity ls, []))"

text \<open>
  The ledger of the FIFO example: two BUYs of one ticker, 10 at the price \<open>p1\<close> and
  then 5 at the price \<open>p2\<close>, followed by a SELL of 12. With \<open>p1 = 100\<close> and
  \<open>p2 = 200\<close> the older lot is the cheaper one, with \<open>p1 = 200\<close> and \<open>p2 = 100\<close> the
  dearer one.
\<close>

definition fifo_example ::
  "string \<Rightarrow> int \<Rightarrow> int \<Rightarrow> int \<Rightarrow> real \<Rightarrow> real \<Rightarrow> real \<Rightarrow> transaction list" where
  "fifo_example x d1 d2 d3 p1 p2 p =
     [\<lparr>ticker = x, date = Datetime d1, transaction_type = ''BUY'', quantity = 10, price = p1\<rparr>,
      \<lparr>ticker = x, date = Datetime d2, transaction_type = ''BUY'', quantity = 5, price = p2\<rparr>,
      \<lparr>ticker = x, date = Datetime d3, transaction_type = ''SELL'', quantity = 12, price = p\<rparr>]"

text \<open>
  A ledger that is not in date order, with three tickers: \<^verbatim>\<open>X\<close> is bought twice and
  sold in part, \<^verbatim>\<open>Y\<close> is sold without ever being bought, \<^verbatim>\<open>Z\<close> is bought once.
\<close>

definition conservation_example :: "transaction list" where
  "conservation_example =
     [\<lparr>ticker = ''Y'', date = Datetime 4, transaction_type = ''SELL'', quantity = 50, price = 10\<rparr>,
      \<lparr>ticker = ''X'', date = Datetime 1, transaction_type = ''BUY'', quantity = 10, price = 100\<rparr>,
      \<lparr>ticker = ''X'', date = Datetime 3, transaction_type = ''SELL'', quantity = 12, price = 150\<rparr>,
      \<lparr>ticker = ''Z'', date = Datetime 5, transaction_type = ''BUY'', quantity = 4, price = 30\<rparr>,
      \<lparr>ticker = ''X'', date = Datetime 2, transaction_type = ''BUY'', quantity = 5, price = 200\<rparr>]"

text \<open>
  A ledger with two BUYs of one date, and a function that exchanges the first two rows of
  a frame: on this ledger both it and the identity return the rows oldest first.
\<close>

definition tie_example :: "transaction list" where
  "tie_example =
     [\<lparr>ticker = ''X'', date = Datetime 1, transaction_type = ''BUY'', quantity = 10, price = 100\<rparr>,
      \<lparr>ticker = ''X'', date = Datetime 1, transaction_type = ''BUY'', quantity = 5, price = 200\<rparr>,
      \<lparr>ticker = ''X'', date = Datetime 2, transaction_type = ''SELL'', quantity = 12, price = 150\<rparr>]"

fun swap_first_two :: "'a list \<Rightarrow> 'a list" where
  "swap_first_two (a # b # rest) = b # a # rest"
| "swap_first_two rows = rows"

section \<open>Valuation: \<^verbatim>\<open>calculate_portfolio_value\<close>\<close>

text \<open>
  A float that need not be a number: \<open>Inf\<close> is an infinity of either sign.
\<close>

datatype fnum = Finite real | Inf | NaN

text \<open>
  The columns added to the holdings. \<^verbatim>\<open>Series.map\<close> with a dict gives NaN for a ticker
  that is not a key, and NaN goes through the arithmetic; \<open>None\<close> is that NaN. Prices of
  the dict are numbers.
\<close>

record valued_holding = holding +
  current_price :: "real option"
  current_value :: "real option"
  unrealized_pl :: "real option"
  unrealized_pl_percent :: fnum

text \<open>
  \<^verbatim>\<open>(unrealized_pl / (quantity * avg_cost_basis)) * 100\<close> on float columns: a division
  by zero raises nothing and gives an infinity, or NaN for \<^verbatim>\<open>0 / 0\<close>.
\<close>

definition pl_percent :: "real option \<Rightarrow> real \<Rightarrow> fnum" where
  "pl_percent pl cost =
     (case pl of
        None \<Rightarrow> NaN
      | Some x \<Rightarrow> if cost = 0 then (if x = 0 then NaN else Inf) else Finite (x / cost * 100))"

definition value_row :: "(string \<rightharpoonup> real) \<Rightarrow> holding \<Rightarrow> valued_holding" where
  "value_row prices_dict h =
     (let price = prices_dict (h_ticker h);
          val = map_option (\<lambda>p. h_quantity h * p) price;
          pl = map_option (\<lambda>v. v - h_quantity h * avg_cost_basis h) val
      in \<lparr>h_ticker = h_ticker h, h_quantity = h_quantity h,
          avg_cost_basis = avg_cost_basis h,
          current_price = price, current_value = val, unrealized_pl = pl,
          unrealized_pl_percent = pl_percent pl (h_quantity h * avg_cost_basis h)\<rparr>)"

definition calculate_portfolio_value ::
  "holding list \<Rightarrow> (string \<rightharpoonup> real) \<Rightarrow> valued_holding list" where
  "calculate_portfolio_value holdings_df prices_dict =
     (if holdings_df = [] then [] else map (value_row prices_dict) holdings_df)"

section \<open>Return analytics: \<^verbatim>\<open>calculate_xirr\<close> and \<^verbatim>\<open>calculate_portfolio_metrics\<close>\<close>

subsection \<open>Cash flows and their dates\<close>

text \<open>
  The loop of lines 207 to 215, with the two lists it appends to. A row that is not a
  BUY goes through the \<^verbatim>\<open>else\<close> branch.
\<close>

fun cash_flow_loop ::
  "transaction list \<Rightarrow> real list \<times> pydate list \<Rightarrow> real list \<times> pydate list" where
  "cash_flow_loop [] acc = acc"
| "cash_flow_loop (row # rows) (cash_flows, dates) =
     (let amount = quantity row * price row
      in cash_flow_loop rows
           (if transaction_type row = ''BUY'' then cash_flows @ [- amount]
            else cash_flows @ [amount],
            dates @ [date row]))"

text \<open>
  Lines 204 to 222: the lists after the loop and after the current value has been added
  as a cash flow dated \<^verbatim>\<open>datetime.now()\<close>, which is a datetime: \<open>now\<close> is its point in
  time.
\<close>

definition xirr_cash_flows ::
  "int \<Rightarrow> transaction list \<Rightarrow> real \<Rightarrow> real list \<times> pydate list" where
  "xirr_cash_flows now rows current_val =
     (case cash_flow_loop rows ([], []) of
        (cash_flows, dates) \<Rightarrow>
          if current_val > 0 then (cash_flows @ [current_val], dates @ [Datetime now])
          else (cash_flows, dates))"

subsection \<open>Comparing and subtracting dates\<close>

text \<open>
  Python orders and subtracts two datetimes, and two dates. Between a datetime and a
  date both \<^verbatim>\<open><\<close> and \<^verbatim>\<open>-\<close> raise \<^verbatim>\<open>TypeError\<close>, and so does pandas for a timestamp and
  a date. \<^verbatim>\<open>min\<close> of an empty list raises \<^verbatim>\<open>ValueError\<close>.
\<close>

datatype py_error = TypeError | ValueError

fun py_less :: "pydate \<Rightarrow> pydate \<Rightarrow> py_error + bool" where
  "py_less (Datetime a) (Datetime b) = Inr (a < b)"
| "py_less (Date a) (Date b) = Inr (a < b)"
| "py_less (Datetime a) (Date b) = Inl TypeError"
| "py_less (Date a) (Datetime b) = Inl TypeError"

text \<open>
  \<^verbatim>\<open>min(dates)\<close>: the first entry is the minimum so far, and each later entry replaces it
  when it is less.
\<close>

fun py_min_loop :: "pydate \<Rightarrow> pydate list \<Rightarrow> py_error + pydate" where
  "py_min_loop min_date [] = Inr min_date"
| "py_min_loop min_date (d # ds) =
     (case py_less d min_date of
        Inl e \<Rightarrow> Inl e
      | Inr is_less \<Rightarrow> py_min_loop (if is_less then d else min_date) ds)"

definition py_min :: "pydate list \<Rightarrow> py_error + pydate" where
  "py_min dates = (case dates of [] \<Rightarrow> Inl ValueError | d # ds \<Rightarrow> py_min_loop d ds)"

text \<open>
  \<^verbatim>\<open>(date - min_date).days\<close>: the whole days of the difference, rounded down; two dates
  differ by whole days.
\<close>

fun py_days :: "pydate \<Rightarrow> pydate \<Rightarrow> py_error + int" where
  "py_days (Datetime a) (Datetime b) = Inr ((a - b) div ns_per_day)"
| "py_days (Date a) (Date b) = Inr (a - b)"
| "py_days (Datetime a) (Date b) = Inl TypeError"
| "py_days (Date a) (Datetime b) = Inl TypeError"

text \<open>The list comprehension of line 231.\<close>

fun days_loop :: "pydate \<Rightarrow> pydate list \<Rightarrow> py_error + int list" where
  "days_loop min_date [] = Inr []"
| "days_loop min_date (d # ds) =
     (case py_days d min_date of
        Inl e \<Rightarrow> Inl e
      | Inr n \<Rightarrow>
          (case days_loop min_date ds of
             Inl e \<Rightarrow> Inl e
           | Inr days \<Rightarrow> Inr (n # days)))"

text \<open>
  Lines 230 and 231 together. They stand before the \<^verbatim>\<open>try\<close> of line 235, so what they
  raise leaves \<^verbatim>\<open>calculate_xirr\<close>. Line 233 takes \<^verbatim>\<open>min(dates)\<close> and \<^verbatim>\<open>max(dates)\<close> once
  more for a message; they compare the same values and raise nothing new.
\<close>

definition xirr_days :: "pydate list \<Rightarrow> py_error + int list" where
  "xirr_days dates =
     (case py_min dates of
        Inl e \<Rightarrow> Inl e
      | Inr min_date \<Rightarrow> days_loop min_date dates)"

subsection \<open>The equation and its solvers\<close>

text \<open>
  \<^verbatim>\<open>xirr_equation\<close> (lines 237 to 241): the loop adds
  \<^verbatim>\<open>cf / (1 + rate) ** (days[i] / 365.0)\<close> to \<^verbatim>\<open>result\<close>, which starts at 0. For a positive
  base \<^verbatim>\<open>**\<close> is the real power \<open>powr\<close>. Where \<^verbatim>\<open>1 + rate\<close> is not positive the source
  gives no real number in general (a zero power that is divided by, a complex number or
  NaN, after the numeric types at run time); the model has \<open>None\<close> there.
\<close>

fun xirr_loop :: "real \<Rightarrow> (real \<times> int) list \<Rightarrow> real \<Rightarrow> real" where
  "xirr_loop rate [] result = result"
| "xirr_loop rate ((cf, d) # rest) result =
     xirr_loop rate rest (result + cf / (1 + rate) powr (real_of_int d / 365))"

definition xirr_equation :: "real list \<Rightarrow> int list \<Rightarrow> real \<Rightarrow> real option" where
  "xirr_equation cash_flows days rate =
     (if 0 < 1 + rate then Some (xirr_loop rate (zip cash_flows days) 0) else None)"

text \<open>
  \<^verbatim>\<open>optimize.newton\<close> and \<^verbatim>\<open>optimize.brentq\<close> are scipy's. Each is a parameter: given the
  function and its starting point or its interval, it raises or returns a float.
\<close>

datatype solver_outcome = Raised | Returned fnum

type_synonym newton_solver = "(real \<Rightarrow> real option) \<Rightarrow> real \<Rightarrow> solver_outcome"

type_synonym brentq_solver = "(real \<Rightarrow> real option) \<Rightarrow> real \<Rightarrow> real \<Rightarrow> solver_outcome"

text \<open>
  \<^verbatim>\<open>xirr_value = result * 100\<close> and the test
  \<^verbatim>\<open>np.isnan(xirr_value) or np.isinf(xirr_value)\<close> that follows it in both stages. The
  product of a finite rate is taken exactly, so it is finite.
\<close>

definition times_100 :: "fnum \<Rightarrow> fnum" where
  "times_100 x = (case x of Finite r \<Rightarrow> Finite (r * 100) | Inf \<Rightarrow> Inf | NaN \<Rightarrow> NaN)"

definition checked_percent :: "fnum \<Rightarrow> real option" where
  "checked_percent result =
     (case times_100 result of
        NaN \<Rightarrow> None
      | Inf \<Rightarrow> None
      | Finite xirr_value \<Rightarrow> Some xirr_value)"

text \<open>
  Lines 235 to 273: the \<^verbatim>\<open>try\<close> around Newton's method seeded at \<^verbatim>\<open>x0=0.1\<close>, and in its
  handler the \<^verbatim>\<open>try\<close> around \<^verbatim>\<open>brentq\<close> on \<^verbatim>\<open>-0.999, 10\<close>, whose handler returns
  \<^verbatim>\<open>None\<close>. Both handlers catch \<^verbatim>\<open>Exception\<close>, so nothing that a solver raises leaves
  this part.
\<close>

definition solve_rate ::
  "newton_solver \<Rightarrow> brentq_solver \<Rightarrow> (real \<Rightarrow> real option) \<Rightarrow> real option" where
  "solve_rate newton brentq f =
     (case newton f (1 / 10) of
        Returned result \<Rightarrow> checked_percent result
      | Raised \<Rightarrow>
          (case brentq f (- (999 / 1000)) 10 of
             Returned result \<Rightarrow> checked_percent result
           | Raised \<Rightarrow> None))"

text \<open>
  The function. Its result is an exception that leaves it, or what it returns: \<^verbatim>\<open>None\<close>
  or the XIRR in percent.
\<close>

definition calculate_xirr ::
  "newton_solver \<Rightarrow> brentq_solver \<Rightarrow> int \<Rightarrow> transaction list option \<Rightarrow> real
     \<Rightarrow> py_error + real option" where
  "calculate_xirr newton brentq now transactions_df current_val =
     (case transactions_df of
        None \<Rightarrow> Inr None
      | Some rows \<Rightarrow>
          if length rows = 0 then Inr None
          else
            (case xirr_cash_flows now rows current_val of
               (cash_flows, dates) \<Rightarrow>
                 if length cash_flows < 2 then Inr None
                 else
                   (case xirr_days dates of
                      Inl e \<Rightarrow> Inl e
                    | Inr days \<Rightarrow>
                        Inr (solve_rate newton brentq (xirr_equation cash_flows days)))))"

subsection \<open>The metrics\<close>

text \<open>
  The dict \<^verbatim>\<open>metrics\<close> with its six keys. The key \<^verbatim>\<open>current_value\<close> is the field
  \<open>m_current_value\<close>, and the argument \<^verbatim>\<open>current_value\<close> of \<^verbatim>\<open>calculate_xirr\<close> is
  \<open>current_val\<close>, the plain name being the column of a valued holding.
\<close>

record metrics =
  total_investment :: real
  total_sells :: real
  m_current_value :: real
  total_return :: real
  total_return_percent :: real
  xirr :: "real option"

text \<open>\<^verbatim>\<open>Series.sum()\<close> leaves NaN entries out and is 0 on no entry.\<close>

fun nansum :: "real option list \<Rightarrow> real" where
  "nansum [] = 0"
| "nansum (None # xs) = nansum xs"
| "nansum (Some v # xs) = v + nansum xs"

definition notional :: "string \<Rightarrow> transaction list \<Rightarrow> real" where
  "notional ty rows =
     sum_list (map (\<lambda>row. quantity row * price row)
       (filter (\<lambda>row. transaction_type row = ty) rows))"

definition initial_metrics :: metrics where
  "initial_metrics =
     \<lparr>total_investment = 0, total_sells = 0, m_current_value = 0, total_return = 0,
      total_return_percent = 0, xirr = None\<rparr>"

text \<open>
  The call of \<^verbatim>\<open>calculate_xirr\<close> in line 183 is not inside a \<^verbatim>\<open>try\<close>: what it raises
  leaves \<^verbatim>\<open>calculate_portfolio_metrics\<close>, and no dict is returned then.
\<close>

definition calculate_portfolio_metrics ::
  "newton_solver \<Rightarrow> brentq_solver \<Rightarrow> int \<Rightarrow> transaction list option
     \<Rightarrow> valued_holding list option \<Rightarrow> py_error + metrics" where
  "calculate_portfolio_metrics newton brentq now transactions_df holdings_df =
     (case (transactions_df, holdings_df) of
        (Some rows, Some holdings) \<Rightarrow>
          (let m1 = (if rows \<noteq> []
                     then initial_metrics\<lparr>total_investment := notional ''BUY'' rows,
                                           total_sells := notional ''SELL'' rows\<rparr>
                     else initial_metrics);
               m2 = (if holdings \<noteq> []
                     then m1\<lparr>m_current_value := nansum (map current_value holdings)\<rparr>
                     else m1);
               m3 = m2\<lparr>total_return :=
                          total_sells m2 + m_current_value m2 - total_investment m2\<rparr>;
               m4 = (if total_investment m3 > 0
                     then m3\<lparr>total_return_percent :=
                               total_return m3 / total_investment m3 * 100\<rparr>
                     else m3)
           in (case calculate_xirr newton brentq now transactions_df (m_current_value m4) of
                 Inl e \<Rightarrow> Inl e
               | Inr x \<Rightarrow> Inr (m4\<lparr>xirr := x\<rparr>)))
      | _ \<Rightarrow> Inr initial_metrics)"

subsection \<open>Names for the statements\<close>

text \<open>The cash flow of a row: a BUY is money out, any other row money in.\<close>

definition signed_amount :: "transaction \<Rightarrow> real" where
  "signed_amount row =
     (if transaction_type row = ''BUY'' then - (quantity row * price row)
      else quantity row * price row)"

text \<open>The dates of a list are all datetimes, or all calendar dates.\<close>

definition one_kind :: "pydate list \<Rightarrow> bool" where
  "one_kind dates \<longleftrightarrow> list_all is_datetime dates \<or> list_all is_date dates"

subsection \<open>Inputs for the examples\<close>

text \<open>
  Solvers to run the examples with: two that always raise, and one that returns its
  starting point when the function is zero there and raises otherwise.
\<close>

definition always_raises_newton :: newton_solver where
  "always_raises_newton f x0 = Raised"

definition always_raises_brentq :: brentq_solver where
  "always_raises_brentq f a b = Raised"

definition seed_if_root_newton :: newton_solver where
  "seed_if_root_newton f x0 = (if f x0 = Some 0 then Returned (Finite x0) else Raised)"

text \<open>
  A ledger of three rows with its holdings valued from a price dict that knows one of
  the two tickers; one BUY of 1000 a year before the day of evaluation, from the CSV
  import and from the manual entry form; two BUYs of one day.
\<close>

definition metrics_rows :: "transaction list" where
  "metrics_rows =
     [\<lparr>ticker = ''AAPL'', date = Datetime 1, transaction_type = ''BUY'', quantity = 10, price = 150\<rparr>,
      \<lparr>ticker = ''MSFT'', date = Datetime 2, transaction_type = ''BUY'', quantity = 5, price = 280\<rparr>,
      \<lparr>ticker = ''AAPL'', date = Datetime 3, transaction_type = ''SELL'', quantity = 3, price = 175\<rparr>]"

definition metrics_holdings :: "valued_holding list" where
  "metrics_holdings =
     calculate_portfolio_value
       [\<lparr>h_ticker = ''AAPL'', h_quantity = 7, avg_cost_basis = 150\<rparr>,
        \<lparr>h_ticker = ''MSFT'', h_quantity = 5, avg_cost_basis = 280\<rparr>]
       [''AAPL'' \<mapsto> 180]"

definition one_year_rows :: "transaction list" where
  "one_year_rows =
     [\<lparr>ticker = ''X'', date = Datetime 0, transaction_type = ''BUY'', quantity = 10, price = 100\<rparr>]"


definition same_day_rows :: "transaction list" where
  "same_day_rows =
     [\<lparr>ticker = ''X'', date = Datetime 0, transaction_type = ''BUY'', quantity = 10, price = 100\<rparr>,
      \<lparr>ticker = ''Y'', date = Datetime 0, transaction_type = ''BUY'', quantity = 5, price = 100\<rparr>]"

section \<open>Properties of the FIFO loop\<close>

text \<open>
  What a SELL takes out of a queue is what it was asked for minus what it could not sell;
  the tickers of the dict stay distinct; lots stay positive when the quantities bought
  are; and from these the total held follows from the totals bought and matched.
\<close>

lemma sell_fifo_total:
  "total_quantity (snd (sell_fifo r ls)) = total_quantity ls - (r - fst (sell_fifo r ls))"
  by (induction r ls rule: sell_fifo.induct) (auto simp: total_quantity_def)

lemma lots_total_update:
  "distinct (map fst lots) \<Longrightarrow>
   lots_total (AList.update k v lots) = lots_total lots - total_quantity (lots_of lots k) + total_quantity v"
proof (induction lots)
  case Nil
  then show ?case by (simp add: lots_total_def lots_of_def total_quantity_def)
next
  case (Cons e lots)
  then show ?case
    by (cases e) (force simp: lots_total_def lots_of_def total_quantity_def map_of_eq_None_iff image_iff split: option.splits)
qed

lemma distinct_process_row:
  "distinct (map fst lots) \<Longrightarrow> distinct (map fst (process_row row lots))"
  by (auto simp: process_row_def Let_def distinct_update map_of_eq_None_iff)

lemma distinct_process_rows:
  "distinct (map fst lots) \<Longrightarrow> distinct (map fst (process_rows rows lots))"
  unfolding process_rows_def
  by (induction rows arbitrary: lots) (simp_all add: distinct_process_row)

lemma lots_of_new_key:
  "map_of lots k = None \<Longrightarrow> lots_of (lots @ [(k, [])]) t = lots_of lots t"
  by (auto simp: lots_of_def map_add_def split: option.splits)

lemma lots_of_update:
  "lots_of (AList.update k v lots) t = (if t = k then v else lots_of lots t)"
  by (simp add: lots_of_def update_conv')

lemma lots_of_process_row:
  "lots_of (process_row row lots) t =
     (if t \<noteq> ticker row then lots_of lots t
      else if transaction_type row = ''BUY''
        then lots_of lots t @ [(quantity row, price row)]
      else if transaction_type row = ''SELL''
        then snd (sell_fifo (quantity row) (lots_of lots t))
      else lots_of lots t)"
proof (cases "map_of lots (ticker row)")
  case None
  then show ?thesis
    by (simp add: process_row_def lots_of_update lots_of_new_key)
next
  case (Some v)
  then show ?thesis
    by (simp add: process_row_def lots_of_update)
qed

lemma lots_total_new_key: "lots_total (lots @ [(k, [])]) = lots_total lots"
  by (simp add: lots_total_def total_quantity_def)

lemma total_quantity_append [simp]:
  "total_quantity (ls @ [(q, p)]) = total_quantity ls + q"
  by (simp add: total_quantity_def)

lemma lots_total_process_row:
  assumes "distinct (map fst lots)"
  shows "lots_total (process_row row lots) =
           lots_total lots
           + (if transaction_type row = ''BUY'' then quantity row else 0)
           - (if transaction_type row = ''SELL''
              then quantity row - fst (sell_fifo (quantity row) (lots_of lots (ticker row)))
              else 0)"
proof (cases "map_of lots (ticker row) = None")
  case True
  then have d: "distinct (map fst (lots @ [(ticker row, [])]))"
    using assms by (auto simp: map_of_eq_None_iff)
  show ?thesis
    using True
    by (simp add: process_row_def lots_total_update[OF d] lots_of_new_key lots_total_new_key
        sell_fifo_total)
next
  case False
  then obtain v where "map_of lots (ticker row) = Some v" by auto
  then show ?thesis
    by (simp add: process_row_def lots_total_update[OF assms] sell_fifo_total)
qed

lemma set_update_subset: "set (AList.update k v al) \<subseteq> insert (k, v) (set al)"
  by (induction al) auto

lemma sell_fifo_positive:
  "list_all (\<lambda>l. 0 < fst l) ls \<Longrightarrow> list_all (\<lambda>l. 0 < fst l) (snd (sell_fifo r ls))"
  by (induction r ls rule: sell_fifo.induct) auto

lemma lots_of_positive:
  assumes "lots_positive lots"
  shows "list_all (\<lambda>l. 0 < fst l) (lots_of lots t)"
proof (cases "map_of lots t")
  case None
  then show ?thesis by (simp add: lots_of_def)
next
  case (Some v)
  then have "(t, v) \<in> set lots" by (rule map_of_SomeD)
  then have "list_all (\<lambda>l. 0 < fst l) (snd (t, v))"
    using assms unfolding lots_positive_def list_all_iff by blast
  then show ?thesis using Some by (simp add: lots_of_def)
qed

lemma lots_positive_update:
  "lots_positive lots \<Longrightarrow> list_all (\<lambda>l. 0 < fst l) v \<Longrightarrow> lots_positive (AList.update k v lots)"
  using set_update_subset[of k v lots] by (fastforce simp: lots_positive_def list_all_iff)

lemma lots_positive_new_key: "lots_positive lots \<Longrightarrow> lots_positive (lots @ [(k, [])])"
  by (simp add: lots_positive_def)

lemma lots_positive_process_row:
  assumes "lots_positive lots" and "transaction_type row = ''BUY'' \<longrightarrow> 0 < quantity row"
  shows "lots_positive (process_row row lots)"
proof -
  define lots1 where "lots1 = (if map_of lots (ticker row) = None then lots @ [(ticker row, [])] else lots)"
  have p1: "lots_positive lots1"
    using assms(1) by (simp add: lots1_def lots_positive_new_key)
  have q: "list_all (\<lambda>l. 0 < fst l) (lots_of lots1 (ticker row))"
    by (rule lots_of_positive[OF p1])
  show ?thesis
    using p1 q assms(2) sell_fifo_positive[OF q, of "quantity row"]
    by (auto simp: process_row_def lots1_def[symmetric] Let_def intro!: lots_positive_update)
qed

lemma lots_positive_process_rows:
  "lots_positive lots \<Longrightarrow> \<forall>row\<in>set rows. transaction_type row = ''BUY'' \<longrightarrow> 0 < quantity row \<Longrightarrow>
   lots_positive (process_rows rows lots)"
  unfolding process_rows_def
  by (induction rows arbitrary: lots) (simp_all add: lots_positive_process_row)

lemma total_quantity_positive:
  "list_all (\<lambda>l. 0 < fst l) ls \<Longrightarrow> (0 < total_quantity ls) = (ls \<noteq> [])"
proof (induction ls)
  case Nil
  then show ?case by (simp add: total_quantity_def)
next
  case (Cons l ls)
  then have "0 \<le> total_quantity ls" by (cases ls) (auto simp: total_quantity_def)
  with Cons.prems show ?case by (simp add: total_quantity_def)
qed

lemma total_quantity_nonneg:
  assumes "list_all (\<lambda>l. 0 < fst l) ls"
  shows "0 \<le> total_quantity ls"
proof -
  have "0 \<le> x" if "x \<in> set (map fst ls)" for x
    using that assms by (force simp: list_all_iff)
  then show ?thesis
    unfolding total_quantity_def by (rule sum_list_nonneg)
qed

text \<open>
  What the loop of a SELL takes out of a queue of positive lots is the quantity asked
  for or, when the queue holds less, all that it holds.
\<close>

lemma sell_fifo_matches_min:
  assumes "list_all (\<lambda>l. 0 < fst l) ls" and "0 \<le> r"
  shows "r - fst (sell_fifo r ls) = min r (total_quantity ls)"
  using assms
proof (induction ls arbitrary: r)
  case Nil
  then show ?case by (simp add: total_quantity_def)
next
  case (Cons a rest)
  obtain q p where a: "a = (q, p)" by (cases a)
  have rest: "list_all (\<lambda>l. 0 < fst l) rest" and q: "0 < q"
    using Cons.prems(1) a by simp_all
  have n: "0 \<le> total_quantity rest"
    by (rule total_quantity_nonneg[OF rest])
  have t: "total_quantity ((q, p) # rest) = q + total_quantity rest"
    by (simp add: total_quantity_def)
  show ?case
  proof (cases "0 < r \<and> q \<le> r")
    case True
    then have "(r - q) - fst (sell_fifo (r - q) rest) = min (r - q) (total_quantity rest)"
      by (intro Cons.IH[OF rest]) simp
    with True show ?thesis
      unfolding a t min_def by (auto split: if_splits)
  next
    case False
    with Cons.prems(2) q n show ?thesis
      unfolding a t min_def by (auto split: if_splits)
  qed
qed

lemma held_of_process_row:
  assumes "lots_positive lots" and "0 \<le> quantity row"
  shows "held_of (process_row row lots) =
           (if transaction_type row = ''BUY'' then
              (held_of lots)(ticker row := held_of lots (ticker row) + quantity row)
            else if transaction_type row = ''SELL'' then
              (held_of lots)(ticker row :=
                 held_of lots (ticker row) - min (quantity row) (held_of lots (ticker row)))
            else held_of lots)"
proof -
  have m: "quantity row - fst (sell_fifo (quantity row) (lots_of lots (ticker row))) =
             min (quantity row) (total_quantity (lots_of lots (ticker row)))"
    by (rule sell_fifo_matches_min[OF lots_of_positive[OF assms(1)] assms(2)])
  have s: "total_quantity (snd (sell_fifo (quantity row) (lots_of lots (ticker row)))) =
             total_quantity (lots_of lots (ticker row))
             - min (quantity row) (total_quantity (lots_of lots (ticker row)))"
    by (simp only: sell_fifo_total m)
  show ?thesis
    by (rule ext) (simp add: held_of_def lots_of_process_row s)
qed

lemma lots_total_process_rows:
  assumes "distinct (map fst lots)" and "lots_positive lots"
    and "\<forall>row\<in>set rows. 0 < quantity row"
  shows "lots_total (process_rows rows lots) =
           lots_total lots + buy_quantity rows - matched_quantity rows (held_of lots)"
  using assms
proof (induction rows arbitrary: lots)
  case Nil
  then show ?case by (simp add: process_rows_def buy_quantity_def)
next
  case (Cons row rows)
  have q: "0 < quantity row" and qs: "\<forall>row\<in>set rows. 0 < quantity row"
    using Cons.prems(3) by simp_all
  have d: "distinct (map fst (process_row row lots))"
    by (rule distinct_process_row[OF Cons.prems(1)])
  have p: "lots_positive (process_row row lots)"
    using q by (intro lots_positive_process_row[OF Cons.prems(2)]) simp
  have m: "quantity row - fst (sell_fifo (quantity row) (lots_of lots (ticker row))) =
             min (quantity row) (held_of lots (ticker row))"
    unfolding held_of_def using q
    by (intro sell_fifo_matches_min[OF lots_of_positive[OF Cons.prems(2)]]) simp
  have h: "held_of (process_row row lots) =
           (if transaction_type row = ''BUY'' then
              (held_of lots)(ticker row := held_of lots (ticker row) + quantity row)
            else if transaction_type row = ''SELL'' then
              (held_of lots)(ticker row :=
                 held_of lots (ticker row) - min (quantity row) (held_of lots (ticker row)))
            else held_of lots)"
    using q by (intro held_of_process_row[OF Cons.prems(2)]) simp
  have "lots_total (process_rows (row # rows) lots) =
          lots_total (process_rows rows (process_row row lots))"
    by (simp add: process_rows_def)
  also have "\<dots> = lots_total (process_row row lots) + buy_quantity rows
                   - matched_quantity rows (held_of (process_row row lots))"
    by (rule Cons.IH[OF d p qs])
  finally show ?case
    by (simp add: lots_total_process_row[OF Cons.prems(1)] m h buy_quantity_def)
qed

text \<open>BUY rows of one ticker queue up behind what the ticker holds, in their order.\<close>

lemma buys_queue_in_order:
  assumes "\<forall>row\<in>set rows. ticker row = x \<and> transaction_type row = ''BUY''"
  shows "lots_of (process_rows rows lots) x =
           lots_of lots x @ map (\<lambda>row. (quantity row, price row)) rows"
  using assms
proof (induction rows arbitrary: lots)
  case Nil
  then show ?case by (simp add: process_rows_def)
next
  case (Cons row rows)
  have "lots_of (process_rows rows (process_row row lots)) x =
          lots_of (process_row row lots) x @ map (\<lambda>row. (quantity row, price row)) rows"
    using Cons.prems by (intro Cons.IH) simp
  moreover have "lots_of (process_row row lots) x = lots_of lots x @ [(quantity row, price row)]"
    using Cons.prems by (simp add: lots_of_process_row)
  ultimately show ?case
    by (simp add: process_rows_def)
qed

lemma build_holdings_Cons:
  "build_holdings (e # lots) =
     (if total_quantity (snd e) > 0 then [holding_of e] else []) @ build_holdings lots"
  by (simp add: build_holdings_def)

lemma build_holdings_positive:
  "lots_positive lots \<Longrightarrow>
   build_holdings lots = map holding_of (filter (\<lambda>e. snd e \<noteq> []) lots)"
proof (induction lots)
  case Nil
  then show ?case by (simp add: build_holdings_def)
next
  case (Cons e lots)
  then have p: "list_all (\<lambda>l. 0 < fst l) (snd e)" and ps: "lots_positive lots"
    by (simp_all add: lots_positive_def)
  show ?case
    using Cons.IH[OF ps] by (simp add: build_holdings_Cons total_quantity_positive[OF p])
qed

lemma build_holdings_total:
  "lots_positive lots \<Longrightarrow> sum_list (map h_quantity (build_holdings lots)) = lots_total lots"
proof (induction lots)
  case Nil
  then show ?case by (simp add: build_holdings_def lots_total_def)
next
  case (Cons e lots)
  then have p: "list_all (\<lambda>l. 0 < fst l) (snd e)" and ps: "lots_positive lots"
    by (simp_all add: lots_positive_def)
  have z: "snd e = [] \<Longrightarrow> total_quantity (snd e) = 0"
    by (simp add: total_quantity_def)
  show ?case
    using Cons.IH[OF ps] z
    by (simp add: build_holdings_Cons total_quantity_positive[OF p] lots_total_def holding_of_def)
qed

lemma buy_quantity_mset:
  assumes "mset xs = mset ys"
  shows "buy_quantity xs = buy_quantity ys"
proof -
  have "buy_quantity zs =
          sum_mset (image_mset quantity (filter_mset (\<lambda>row. transaction_type row = ''BUY'') (mset zs)))"
    for zs
    by (simp add: buy_quantity_def flip: sum_mset_sum_list)
  then show ?thesis using assms by simp
qed

lemma sell_fifo_prefix:
  assumes "\<forall>l\<in>set ls. 0 < fst l" and "0 \<le> r"
  shows "\<exists>k\<le>length ls. total_quantity (take k ls) \<le> r \<and>
           (k < length ls \<longrightarrow> r - total_quantity (take k ls) < fst (ls ! k)) \<and>
           sell_fifo r ls = fifo_consumed k r ls"
  using assms
proof (induction ls arbitrary: r)
  case Nil
  then show ?case by (simp add: total_quantity_def fifo_consumed_def)
next
  case (Cons a rest)
  obtain q p where a: "a = (q, p)" by (cases a)
  have qpos: "0 < q" using Cons.prems a by simp
  show ?case
  proof (cases "0 < r \<and> q \<le> r")
    case True
    then have "0 \<le> r - q" by simp
    with Cons.IH[of "r - q"] Cons.prems obtain k where
      k: "k \<le> length rest" "total_quantity (take k rest) \<le> r - q"
         "k < length rest \<longrightarrow> (r - q) - total_quantity (take k rest) < fst (rest ! k)"
         "sell_fifo (r - q) rest = fifo_consumed k (r - q) rest"
      by auto
    show ?thesis
      apply (rule exI[of _ "Suc k"])
      using k True a
      by (auto simp: total_quantity_def fifo_consumed_def algebra_simps)
  next
    case False
    show ?thesis
      apply (rule exI[of _ 0])
      using False a qpos Cons.prems(2)
      by (auto simp: total_quantity_def fifo_consumed_def)
  qed
qed

lemma sorted_permutation_unique:
  assumes "sorted (map f ys)" and "mset ys = mset xs"
    and "sorted (map f xs)" and "distinct (map f xs)"
  shows "ys = xs"
proof -
  have m: "mset (map f ys) = mset (map f xs)"
    using assms(2) by simp
  have s: "set ys = set xs"
    using assms(2) by (rule mset_eq_setD)
  have d: "distinct (map f ys)"
    using assms(4) by (simp add: mset_eq_imp_distinct_iff[OF m])
  have "set (map f ys) = set (map f xs)"
    using s by simp
  with assms(1) d assms(3,4) have e: "map f ys = map f xs"
    by (rule sorted_distinct_set_unique)
  have "inj_on f (set ys \<union> set xs)"
    using assms(4) s by (simp add: distinct_map)
  with e show ?thesis
    by (simp add: inj_on_map_eq_map)
qed

lemma sell_fifo_oversell:
  assumes "\<forall>l\<in>set ls. 0 < fst l" and "total_quantity ls < r"
  shows "sell_fifo r ls = (r - total_quantity ls, [])"
  using assms
proof (induction ls arbitrary: r)
  case Nil
  then show ?case by (simp add: total_quantity_def)
next
  case (Cons a rest)
  obtain q p where a: "a = (q, p)" by (cases a)
  have "0 \<le> x" if "x \<in> set (map fst rest)" for x
    using that Cons.prems(1) by force
  then have "0 \<le> total_quantity rest"
    unfolding total_quantity_def by (rule sum_list_nonneg)
  then have "0 < r" "q \<le> r" "total_quantity rest < r - q"
    using Cons.prems a by (auto simp: total_quantity_def)
  then show ?case
    using Cons.IH[of "r - q"] Cons.prems(1) a by (simp add: total_quantity_def)
qed

lemma never_bought_process_rows:
  "lots_of lots t = [] \<Longrightarrow>
   \<forall>row\<in>set rows. ticker row = t \<longrightarrow> transaction_type row \<noteq> ''BUY'' \<Longrightarrow>
   lots_of (process_rows rows lots) t = []"
proof (induction rows arbitrary: lots)
  case Nil
  then show ?case by (simp add: process_rows_def)
next
  case (Cons row rows)
  have "lots_of (process_row row lots) t = []"
    using Cons.prems by (auto simp: lots_of_process_row)
  from Cons.IH[OF this] Cons.prems(2) show ?case
    by (simp add: process_rows_def)
qed

lemma build_holdings_ticker:
  assumes "distinct (map fst lots)" and "h \<in> set (build_holdings lots)"
  shows "0 < total_quantity (lots_of lots (h_ticker h))"
proof -
  from assms(2) obtain e where e: "e \<in> set lots" "0 < total_quantity (snd e)" "h = holding_of e"
    by (auto simp: build_holdings_def split: if_splits)
  then have "map_of lots (fst e) = Some (snd e)"
    by (simp add: map_of_eq_Some_iff[OF assms(1)])
  then show ?thesis
    using e by (simp add: lots_of_def holding_of_def)
qed

lemmas fifo_eval =
  process_rows_def process_row_def lots_of_def build_holdings_def holding_of_def
  total_quantity_def total_cost_def calculate_holdings_fifo_def

lemma fifo_example_sorted:
  assumes "d1 < d2" and "d2 < d3"
    and "sorts_by_date sort_values (fifo_example x d1 d2 d3 p1 p2 p)"
  shows "sort_values (fifo_example x d1 d2 d3 p1 p2 p) = fifo_example x d1 d2 d3 p1 p2 p"
proof (rule sorted_permutation_unique[where f = date_key])
  show "sorted (map date_key (sort_values (fifo_example x d1 d2 d3 p1 p2 p)))"
    using assms(3) by (simp add: sorts_by_date_def)
  show "mset (sort_values (fifo_example x d1 d2 d3 p1 p2 p)) =
          mset (fifo_example x d1 d2 d3 p1 p2 p)"
    using assms(3) by (simp add: sorts_by_date_def)
  show "sorted (map date_key (fifo_example x d1 d2 d3 p1 p2 p))"
    using assms(1,2) by (simp add: fifo_example_def date_key_def)
  show "distinct (map date_key (fifo_example x d1 d2 d3 p1 p2 p))"
    using assms(1,2) by (simp add: fifo_example_def date_key_def)
qed

lemma fifo_example_lots:
  "process_rows (fifo_example x d1 d2 d3 p1 p2 p) [] = [(x, [(3, p2)])]"
  by (simp add: fifo_example_def fifo_eval)

lemma lots_positive_sorted_rows:
  assumes "\<forall>row\<in>set rows. 0 < quantity row" and "set (sort_values rows) \<subseteq> set rows"
  shows "lots_positive (process_rows (sort_values rows) [])"
proof (rule lots_positive_process_rows)
  show "lots_positive []" by (simp add: lots_positive_def)
  show "\<forall>row\<in>set (sort_values rows). transaction_type row = ''BUY'' \<longrightarrow> 0 < quantity row"
    using assms by blast
qed

lemma distinct_sorted_rows: "distinct (map fst (process_rows rows []))"
  by (rule distinct_process_rows) simp

lemma calculate_holdings_fifo_Some:
  assumes "set (sort_values rows) \<subseteq> set rows"
  shows "calculate_holdings_fifo sort_values (Some rows) =
           build_holdings (process_rows (sort_values rows) [])"
proof (cases "rows = []")
  case True
  then have "sort_values rows = []" using assms by simp
  then show ?thesis using True
    by (simp add: calculate_holdings_fifo_def process_rows_def build_holdings_def)
next
  case False
  then show ?thesis by (simp add: calculate_holdings_fifo_def)
qed

lemma build_holdings_quantity:
  "h \<in> set (build_holdings lots) \<Longrightarrow> 0 < h_quantity h"
  by (auto simp: build_holdings_def holding_of_def split: if_splits)

lemma calculate_holdings_fifo_quantity:
  "h \<in> set (calculate_holdings_fifo sort_values df) \<Longrightarrow> 0 < h_quantity h"
  by (auto simp: calculate_holdings_fifo_def build_holdings_quantity split: option.splits if_splits)

lemma conservation_example_sorted:
  "sort_key date_key conservation_example =
     [\<lparr>ticker = ''X'', date = Datetime 1, transaction_type = ''BUY'', quantity = 10, price = 100\<rparr>,
      \<lparr>ticker = ''X'', date = Datetime 2, transaction_type = ''BUY'', quantity = 5, price = 200\<rparr>,
      \<lparr>ticker = ''X'', date = Datetime 3, transaction_type = ''SELL'', quantity = 12, price = 150\<rparr>,
      \<lparr>ticker = ''Y'', date = Datetime 4, transaction_type = ''SELL'', quantity = 50, price = 10\<rparr>,
      \<lparr>ticker = ''Z'', date = Datetime 5, transaction_type = ''BUY'', quantity = 4, price = 30\<rparr>]"
  by (simp add: conservation_example_def date_key_def)

lemma conservation_example_matched:
  "matched_quantity (sort_key date_key conservation_example) (\<lambda>t. 0) = 12"
  by (simp add: conservation_example_sorted)

lemma holding_of_explicit:
  "holding_of =
     (\<lambda>(t, ls). \<lparr>h_ticker = t, h_quantity = sum_list (map fst ls),
                  avg_cost_basis = sum_list (map (\<lambda>(q, p). q * p) ls) / sum_list (map fst ls)\<rparr>)"
  by (auto simp: holding_of_def total_quantity_def total_cost_def fun_eq_iff)

lemma conservation_example_lots:
  "process_rows (sort_key date_key conservation_example) [] =
     [(''X'', [(3, 200)]), (''Y'', []), (''Z'', [(4, 30)])]"
  by (simp add: conservation_example_sorted) (simp add: fifo_eval)

subsection \<open>Rows of one date\<close>

text \<open>
  The source calls \<^verbatim>\<open>sort_values('date')\<close> without a \<^verbatim>\<open>kind\<close>, so the order in which rows
  of one date come out is pandas' choice. The holdings depend on it: both orders of the
  two BUYs of \<open>tie_example\<close> are sorted by date, and they leave different lots.
\<close>

lemma tie_order_changes_holdings:
  "sorts_by_date (\<lambda>rows. rows) tie_example
   \<and> sorts_by_date swap_first_two tie_example
   \<and> calculate_holdings_fifo (\<lambda>rows. rows) (Some tie_example) =
       [\<lparr>h_ticker = ''X'', h_quantity = 3, avg_cost_basis = 200\<rparr>]
   \<and> calculate_holdings_fifo swap_first_two (Some tie_example) =
       [\<lparr>h_ticker = ''X'', h_quantity = 3, avg_cost_basis = 100\<rparr>]"
  by (simp add: sorts_by_date_def tie_example_def date_key_def fifo_eval)

section \<open>Properties of the valuation and of the return analytics\<close>

lemma value_row_empty:
  "value_row Map.empty h =
     \<lparr>h_ticker = h_ticker h, h_quantity = h_quantity h, avg_cost_basis = avg_cost_basis h,
      current_price = None, current_value = None, unrealized_pl = None,
      unrealized_pl_percent = NaN\<rparr>"
  by (simp add: value_row_def pl_percent_def)



lemma cash_flow_loop_append:
  "cash_flow_loop rows (cash_flows, dates) =
     (cash_flows @ map signed_amount rows, dates @ map date rows)"
  by (induction rows arbitrary: cash_flows dates) (simp_all add: signed_amount_def Let_def)

lemma xirr_cash_flows_eq:
  "xirr_cash_flows now rows current_val =
     (map signed_amount rows @ (if current_val > 0 then [current_val] else []),
      map date rows @ (if current_val > 0 then [Datetime now] else []))"
  by (simp add: xirr_cash_flows_def cash_flow_loop_append)

lemma xirr_cash_flows_length:
  "xirr_cash_flows now rows current_val = (cash_flows, dates) \<Longrightarrow>
   length dates = length cash_flows"
  by (auto simp: xirr_cash_flows_eq)

text \<open>Datetimes among themselves, and dates among themselves.\<close>

lemma py_min_loop_Datetime:
  "py_min_loop (Datetime a) (map Datetime ts) = Inr (Datetime (fold min ts a))"
  by (induction ts arbitrary: a) (simp_all add: min_def)

lemma py_min_loop_Date:
  "py_min_loop (Date a) (map Date ts) = Inr (Date (fold min ts a))"
  by (induction ts arbitrary: a) (simp_all add: min_def)

lemma days_loop_Datetime:
  "days_loop (Datetime m) (map Datetime ts) = Inr (map (\<lambda>u. (u - m) div ns_per_day) ts)"
  by (induction ts) simp_all

lemma days_loop_Date:
  "days_loop (Date m) (map Date ts) = Inr (map (\<lambda>u. u - m) ts)"
  by (induction ts) simp_all

lemma fold_min_Min: "fold min ds d = Min (set (d # ds))"
  by (simp only: Min.set_eq_fold)

lemma xirr_days_Datetime:
  "xirr_days (map Datetime (t # ts)) =
     Inr (map (\<lambda>u. (u - Min (set (t # ts))) div ns_per_day) (t # ts))"
proof -
  have "py_min (map Datetime (t # ts)) = Inr (Datetime (Min (set (t # ts))))"
    by (simp only: py_min_def list.map list.case py_min_loop_Datetime fold_min_Min)
  then show ?thesis
    by (simp only: xirr_days_def sum.case days_loop_Datetime)
qed

lemma xirr_days_Date:
  "xirr_days (map Date (t # ts)) = Inr (map (\<lambda>u. u - Min (set (t # ts))) (t # ts))"
proof -
  have "py_min (map Date (t # ts)) = Inr (Date (Min (set (t # ts))))"
    by (simp only: py_min_def list.map list.case py_min_loop_Date fold_min_Min)
  then show ?thesis
    by (simp only: xirr_days_def sum.case days_loop_Date)
qed

lemma list_all_is_datetime: "list_all is_datetime ds \<Longrightarrow> \<exists>ts. ds = map Datetime ts"
proof (induction ds)
  case Nil
  then show ?case by simp
next
  case (Cons d ds)
  then obtain ts where "ds = map Datetime ts" by auto
  moreover obtain t where "d = Datetime t" using Cons.prems by (cases d) simp_all
  ultimately have "d # ds = map Datetime (t # ts)" by simp
  then show ?case by (rule exI[of _ "t # ts"])
qed

lemma list_all_is_date: "list_all is_date ds \<Longrightarrow> \<exists>ts. ds = map Date ts"
proof (induction ds)
  case Nil
  then show ?case by simp
next
  case (Cons d ds)
  then obtain ts where "ds = map Date ts" by auto
  moreover obtain t where "d = Date t" using Cons.prems by (cases d) simp_all
  ultimately have "d # ds = map Date (t # ts)" by simp
  then show ?case by (rule exI[of _ "t # ts"])
qed





lemma xirr_days_one_kind:
  assumes "dates \<noteq> []" and "one_kind dates"
  shows "\<exists>days. xirr_days dates = Inr days"
proof -
  from assms(2) consider ts where "dates = map Datetime ts" | ts where "dates = map Date ts"
    unfolding one_kind_def using list_all_is_datetime list_all_is_date by blast
  then show ?thesis
  proof cases
    case 1
    with assms(1) obtain t ts' where "ts = t # ts'" by (cases ts) auto
    with 1 show ?thesis using xirr_days_Datetime[of t ts'] by auto
  next
    case 2
    with assms(1) obtain t ts' where "ts = t # ts'" by (cases ts) auto
    with 2 show ?thesis using xirr_days_Date[of t ts'] by auto
  qed
qed






lemma calculate_xirr_solve:
  assumes "rows \<noteq> []" and "xirr_cash_flows now rows current_val = (cash_flows, dates)"
    and "2 \<le> length cash_flows"
  shows "calculate_xirr newton brentq now (Some rows) current_val =
           (case xirr_days dates of
              Inl e \<Rightarrow> Inl e
            | Inr days \<Rightarrow> Inr (solve_rate newton brentq (xirr_equation cash_flows days)))"
  using assms by (simp add: calculate_xirr_def)

lemma calculate_xirr_few:
  assumes "length (fst (xirr_cash_flows now rows current_val)) < 2"
  shows "calculate_xirr newton brentq now (Some rows) current_val = Inr None"
proof -
  obtain cash_flows dates where c: "xirr_cash_flows now rows current_val = (cash_flows, dates)"
    by (cases "xirr_cash_flows now rows current_val")
  then show ?thesis
    using assms by (simp add: calculate_xirr_def)
qed

text \<open>
  When the rows hold datetimes, as the CSV import leaves them, the dates of the cash
  flows are of one kind and nothing is raised.
\<close>

lemma datetime_rows_one_kind:
  assumes "list_all (\<lambda>row. is_datetime (date row)) rows"
  shows "one_kind (snd (xirr_cash_flows now rows current_val))"
  using assms by (auto simp: xirr_cash_flows_eq one_kind_def list_all_iff)

lemma calculate_xirr_returns:
  assumes "list_all (\<lambda>row. is_datetime (date row)) rows"
  shows "\<exists>x. calculate_xirr newton brentq now (Some rows) current_val = Inr x"
proof (cases "rows = [] \<or> length (fst (xirr_cash_flows now rows current_val)) < 2")
  case True
  then show ?thesis
    using calculate_xirr_few[of now rows current_val newton brentq]
    by (auto simp: calculate_xirr_def)
next
  case False
  obtain cash_flows dates where c: "xirr_cash_flows now rows current_val = (cash_flows, dates)"
    by (cases "xirr_cash_flows now rows current_val")
  have l: "length dates = length cash_flows"
    by (rule xirr_cash_flows_length[OF c])
  have ne: "dates \<noteq> []"
    using False c l by auto
  have "one_kind dates"
    using datetime_rows_one_kind[OF assms, of now current_val] c by simp
  from xirr_days_one_kind[OF ne this] obtain days where "xirr_days dates = Inr days" ..
  then show ?thesis
    using False c by (simp add: calculate_xirr_def)
qed

lemma checked_percent_simps:
  "checked_percent (Finite r) = Some (r * 100)"
  "checked_percent Inf = None"
  "checked_percent NaN = None"
  by (simp_all add: checked_percent_def times_100_def)

lemma checked_percent_case:
  "checked_percent x = (case x of Finite r \<Rightarrow> Some (r * 100) | Inf \<Rightarrow> None | NaN \<Rightarrow> None)"
  by (cases x) (simp_all add: checked_percent_simps)






lemma same_day_flows:
  "xirr_cash_flows 0 same_day_rows 0 = ([- 1000, - 500], [Datetime 0, Datetime 0])"
  by (simp add: xirr_cash_flows_def same_day_rows_def)

lemma same_day_days:
  "xirr_days [Datetime 0, Datetime 0] = Inr [0, 0]"
  by (simp add: xirr_days_def py_min_def ns_per_day_def)

lemma same_day_no_root:
  "xirr_equation [- 1000, - 500] [0, 0] (1 / 10) = Some (- 1500)"
  by (simp add: xirr_equation_def)




section \<open>The claims about the FIFO engine\<close>

text \<open>
  Claim C1. Lots are matched in FIFO order. A BUY row puts its lot at the back of the
  queue of its ticker, so BUY rows of one ticker queue up in the order in which they are
  processed, which is the order of their dates, and the front of a queue is its oldest
  lot. For a queue \<open>ls\<close> of lots with positive quantities and a quantity \<open>r\<close> to sell,
  the loop of a SELL uses up the \<open>k\<close> oldest lots for some \<open>k\<close>: their quantities add
  up to at most \<open>r\<close>, lot \<open>k\<close>, when there is one, is larger than what is left to sell
  and stays at the front reduced by it, and the lots behind it are untouched
  (\<open>fifo_consumed\<close>). A SELL row replaces the queue of its ticker by the result of that
  loop, and no row changes the queue of another ticker. For BUYs of 10 at \<open>p1\<close> and 5
  at \<open>p2\<close> followed by a SELL of 12, on increasing dates, the one lot that remains is 3
  at \<open>p2\<close>, the price of the newer lot, whichever of the two prices is the lower: for
  10 at 100 and 5 at 200 it is 3 at 200.
\<close>

theorem fifo_order:
  "((\<forall>l\<in>set ls. 0 < fst l) \<and> 0 \<le> r \<longrightarrow>
      (\<exists>k\<le>length ls. total_quantity (take k ls) \<le> r \<and>
         (k < length ls \<longrightarrow> r - total_quantity (take k ls) < fst (ls ! k)) \<and>
         sell_fifo r ls = fifo_consumed k r ls))
   \<and> (transaction_type row = ''BUY'' \<longrightarrow>
        lots_of (process_row row lots) (ticker row) =
          lots_of lots (ticker row) @ [(quantity row, price row)])
   \<and> ((\<forall>row\<in>set rows. ticker row = x \<and> transaction_type row = ''BUY'') \<longrightarrow>
        lots_of (process_rows rows lots) x =
          lots_of lots x @ map (\<lambda>row. (quantity row, price row)) rows)
   \<and> (transaction_type row = ''SELL'' \<longrightarrow>
        lots_of (process_row row lots) (ticker row) =
          snd (sell_fifo (quantity row) (lots_of lots (ticker row))))
   \<and> (\<forall>t. t \<noteq> ticker row \<longrightarrow> lots_of (process_row row lots) t = lots_of lots t)
   \<and> (d1 < d2 \<and> d2 < d3 \<and> sorts_by_date sort_values (fifo_example x d1 d2 d3 p1 p2 p) \<longrightarrow>
        process_rows (sort_values (fifo_example x d1 d2 d3 p1 p2 p)) [] = [(x, [(3, p2)])]
        \<and> calculate_holdings_fifo sort_values (Some (fifo_example x d1 d2 d3 p1 p2 p)) =
            [\<lparr>h_ticker = x, h_quantity = 3, avg_cost_basis = p2\<rparr>])"
proof (intro conjI impI)
  assume "(\<forall>l\<in>set ls. 0 < fst l) \<and> 0 \<le> r"
  then show "\<exists>k\<le>length ls. total_quantity (take k ls) \<le> r \<and>
         (k < length ls \<longrightarrow> r - total_quantity (take k ls) < fst (ls ! k)) \<and>
         sell_fifo r ls = fifo_consumed k r ls"
    using sell_fifo_prefix[of ls r] by blast
next
  assume "transaction_type row = ''BUY''"
  then show "lots_of (process_row row lots) (ticker row) =
          lots_of lots (ticker row) @ [(quantity row, price row)]"
    by (simp add: lots_of_process_row)
next
  assume "\<forall>row\<in>set rows. ticker row = x \<and> transaction_type row = ''BUY''"
  then show "lots_of (process_rows rows lots) x =
          lots_of lots x @ map (\<lambda>row. (quantity row, price row)) rows"
    by (rule buys_queue_in_order)
next
  assume "transaction_type row = ''SELL''"
  then show "lots_of (process_row row lots) (ticker row) =
          snd (sell_fifo (quantity row) (lots_of lots (ticker row)))"
    by (simp add: lots_of_process_row)
next
  show "\<forall>t. t \<noteq> ticker row \<longrightarrow> lots_of (process_row row lots) t = lots_of lots t"
    by (simp add: lots_of_process_row)
next
  assume a: "d1 < d2 \<and> d2 < d3 \<and> sorts_by_date sort_values (fifo_example x d1 d2 d3 p1 p2 p)"
  then have s: "sort_values (fifo_example x d1 d2 d3 p1 p2 p) = fifo_example x d1 d2 d3 p1 p2 p"
    by (intro fifo_example_sorted) simp_all
  show "process_rows (sort_values (fifo_example x d1 d2 d3 p1 p2 p)) [] = [(x, [(3, p2)])]"
    by (simp only: s fifo_example_lots)
  show "calculate_holdings_fifo sort_values (Some (fifo_example x d1 d2 d3 p1 p2 p)) =
            [\<lparr>h_ticker = x, h_quantity = 3, avg_cost_basis = p2\<rparr>]"
    by (simp add: calculate_holdings_fifo_def s fifo_example_lots)
       (simp add: fifo_example_def build_holdings_def holding_of_def total_quantity_def total_cost_def)
qed

theorem fifo_order_witness:
  "(\<exists>k\<le>length ([(10, 100), (5, 200)] :: lot list).
         total_quantity (take k ([(10, 100), (5, 200)] :: lot list)) \<le> 12 \<and>
         (k < length ([(10, 100), (5, 200)] :: lot list) \<longrightarrow>
            12 - total_quantity (take k ([(10, 100), (5, 200)] :: lot list))
              < fst (([(10, 100), (5, 200)] :: lot list) ! k)) \<and>
         sell_fifo 12 ([(10, 100), (5, 200)] :: lot list) =
           fifo_consumed k 12 ([(10, 100), (5, 200)] :: lot list))
   \<and> lots_of (process_rows (take 2 (fifo_example ''X'' 1 2 3 200 100 150)) []) ''X'' =
        [(10, 200), (5, 100)]
   \<and> sorts_by_date (sort_key date_key) (fifo_example ''X'' 1 2 3 200 100 150)
   \<and> calculate_holdings_fifo (sort_key date_key) (Some (fifo_example ''X'' 1 2 3 200 100 150)) =
        [\<lparr>h_ticker = ''X'', h_quantity = 3, avg_cost_basis = 100\<rparr>]
   \<and> sorts_by_date (sort_key date_key) (fifo_example ''X'' 1 2 3 100 200 150)
   \<and> calculate_holdings_fifo (sort_key date_key) (Some (fifo_example ''X'' 1 2 3 100 200 150)) =
        [\<lparr>h_ticker = ''X'', h_quantity = 3, avg_cost_basis = 200\<rparr>]"
proof -
  note t = fifo_order[of "[(10, 100), (5, 200)]" 12
      "\<lparr>ticker = ''X'', date = Datetime 3, transaction_type = ''SELL'', quantity = 12, price = 150\<rparr>"
      "[]" "take 2 (fifo_example ''X'' 1 2 3 200 100 150)" "''X''"
      1 2 3 "sort_key date_key" 200 100 150]
  note u = fifo_order[of "[(10, 100), (5, 200)]" 12
      "\<lparr>ticker = ''X'', date = Datetime 3, transaction_type = ''SELL'', quantity = 12, price = 150\<rparr>"
      "[]" "[]" "''X''" 1 2 3 "sort_key date_key" 100 200 150]
  have h1: "(\<forall>l\<in>set ([(10, 100), (5, 200)] :: lot list). 0 < fst l) \<and> (0 :: real) \<le> 12"
    by simp
  have h2: "\<forall>row\<in>set (take 2 (fifo_example ''X'' 1 2 3 200 100 150)).
              ticker row = ''X'' \<and> transaction_type row = ''BUY''"
    by (simp add: fifo_example_def)
  have s1: "sorts_by_date (sort_key date_key) (fifo_example ''X'' 1 2 3 200 100 150)"
    by (simp add: sorts_by_date_def fifo_example_def date_key_def)
  have s2: "sorts_by_date (sort_key date_key) (fifo_example ''X'' 1 2 3 100 200 150)"
    by (simp add: sorts_by_date_def fifo_example_def date_key_def)
  have h3: "(1 :: int) < 2 \<and> (2 :: int) < 3
        \<and> sorts_by_date (sort_key date_key) (fifo_example ''X'' 1 2 3 200 100 150)"
    using s1 by simp
  have h4: "(1 :: int) < 2 \<and> (2 :: int) < 3
        \<and> sorts_by_date (sort_key date_key) (fifo_example ''X'' 1 2 3 100 200 150)"
    using s2 by simp
  note c1 = mp[OF conjunct1[OF t] h1]
  have c2: "lots_of (process_rows (take 2 (fifo_example ''X'' 1 2 3 200 100 150)) []) ''X'' =
        [(10, 200), (5, 100)]"
    using mp[OF conjunct1[OF conjunct2[OF conjunct2[OF t]]] h2]
    by (simp add: fifo_example_def lots_of_def)
  note c3 = conjunct2[OF mp[OF conjunct2[OF conjunct2[OF conjunct2[OF conjunct2[OF conjunct2[OF t]]]]] h3]]
  note c4 = conjunct2[OF mp[OF conjunct2[OF conjunct2[OF conjunct2[OF conjunct2[OF conjunct2[OF u]]]]] h4]]
  show ?thesis
    by (rule conjI[OF c1 conjI[OF c2 conjI[OF s1 conjI[OF c3 conjI[OF s2 c4]]]]])
qed

text \<open>
  Claim C3. Conservation: when the sort returns the rows of the ledger and every quantity
  of the ledger is positive, the quantities of the holdings add up to the quantity bought
  minus the quantity matched by the SELL rows in the order in which they are processed,
  where a SELL matches its quantity or, when its ticker holds less, what the ticker holds
  (\<open>matched_quantity\<close>, from an empty book). The loop of a SELL takes exactly that out
  of a queue of positive lots. The quantity of a holding is never negative, whatever the
  ledger and the sort.
\<close>

theorem holdings_conservation:
  "(mset (sort_values rows) = mset rows \<and> (\<forall>row\<in>set rows. 0 < quantity row) \<longrightarrow>
      sum_list (map h_quantity (calculate_holdings_fifo sort_values (Some rows))) =
        buy_quantity rows - matched_quantity (sort_values rows) (\<lambda>t. 0))
   \<and> ((\<forall>l\<in>set ls. 0 < fst l) \<and> 0 \<le> r \<longrightarrow>
        total_quantity ls - total_quantity (snd (sell_fifo r ls)) = min r (total_quantity ls))
   \<and> (\<forall>h\<in>set (calculate_holdings_fifo sort_values df). 0 \<le> h_quantity h)"
proof (intro conjI impI ballI)
  assume a: "mset (sort_values rows) = mset rows \<and> (\<forall>row\<in>set rows. 0 < quantity row)"
  then have s: "set (sort_values rows) \<subseteq> set rows"
    using mset_eq_setD[of "sort_values rows" rows] by simp
  have q: "\<forall>row\<in>set (sort_values rows). 0 < quantity row"
    using a s by blast
  have p: "lots_positive (process_rows (sort_values rows) [])"
    using a s by (intro lots_positive_sorted_rows) simp_all
  have e: "held_of [] = (\<lambda>t. 0)"
    by (rule ext) (simp add: held_of_def lots_of_def total_quantity_def)
  have "sum_list (map h_quantity (calculate_holdings_fifo sort_values (Some rows))) =
          lots_total (process_rows (sort_values rows) [])"
    by (simp add: calculate_holdings_fifo_Some[of sort_values rows, OF s] build_holdings_total[OF p])
  also have "\<dots> = lots_total [] + buy_quantity (sort_values rows)
                   - matched_quantity (sort_values rows) (held_of [])"
    by (rule lots_total_process_rows[OF _ _ q]) (simp_all add: lots_positive_def)
  also have "\<dots> = buy_quantity rows - matched_quantity (sort_values rows) (\<lambda>t. 0)"
    using a by (simp add: lots_total_def e buy_quantity_mset[of "sort_values rows" rows])
  finally show "sum_list (map h_quantity (calculate_holdings_fifo sort_values (Some rows))) =
        buy_quantity rows - matched_quantity (sort_values rows) (\<lambda>t. 0)" .
next
  assume a: "(\<forall>l\<in>set ls. 0 < fst l) \<and> 0 \<le> r"
  then have "r - fst (sell_fifo r ls) = min r (total_quantity ls)"
    by (intro sell_fifo_matches_min) (simp_all add: list_all_iff)
  then show "total_quantity ls - total_quantity (snd (sell_fifo r ls)) = min r (total_quantity ls)"
    by (simp add: sell_fifo_total)
next
  fix h assume "h \<in> set (calculate_holdings_fifo sort_values df)"
  then show "0 \<le> h_quantity h"
    using calculate_holdings_fifo_quantity[of h sort_values df] by simp
qed

theorem holdings_conservation_witness:
  "sum_list (map h_quantity (calculate_holdings_fifo (sort_key date_key) (Some conservation_example))) =
     buy_quantity conservation_example
       - matched_quantity (sort_key date_key conservation_example) (\<lambda>t. 0)
   \<and> buy_quantity conservation_example = 19
   \<and> matched_quantity (sort_key date_key conservation_example) (\<lambda>t. 0) = 12
   \<and> map h_quantity (calculate_holdings_fifo (sort_key date_key) (Some conservation_example)) = [3, 4]
   \<and> total_quantity [(10, 100), (5, 200)] - total_quantity (snd (sell_fifo 50 [(10, 100), (5, 200)])) = 15"
proof -
  note t = holdings_conservation[of "sort_key date_key" conservation_example
      "[(10, 100), (5, 200)]" 50]
  have h: "mset (sort_key date_key conservation_example) = mset conservation_example
           \<and> (\<forall>row\<in>set conservation_example. 0 < quantity row)"
    by (simp add: conservation_example_def)
  have h2: "(\<forall>l\<in>set ([(10, 100), (5, 200)] :: lot list). 0 < fst l) \<and> (0 :: real) \<le> 50"
    by simp
  note c = mp[OF conjunct1[OF t] h]
  have m: "total_quantity [(10, 100), (5, 200)]
             - total_quantity (snd (sell_fifo 50 [(10, 100), (5, 200)])) = 15"
    using mp[OF conjunct1[OF conjunct2[OF t]] h2] by (simp add: total_quantity_def)
  have b: "buy_quantity conservation_example = 19"
    by (simp add: buy_quantity_def conservation_example_def)
  have q: "map h_quantity (calculate_holdings_fifo (sort_key date_key) (Some conservation_example)) = [3, 4]"
    by (simp add: calculate_holdings_fifo_def conservation_example_sorted)
       (simp add: conservation_example_def fifo_eval)
  show ?thesis
    by (rule conjI[OF c conjI[OF b conjI[OF conservation_example_matched conjI[OF q m]]]])
qed

text \<open>
  Claim C4. When every quantity of the ledger is positive, the tickers of the lots dict
  are distinct and the holdings are, in the order of the dict, one holding for each
  ticker whose queue is not empty: its quantity is the sum of the quantities of the lots
  left and its average cost basis the sum of quantity times price over that quantity. A
  ticker with an empty queue has no holding, and no holding has the quantity zero. Lots
  of 3 at 200 and 4 at 300 give the average cost basis \<open>(3 * 200 + 4 * 300) / 7\<close>.
\<close>

theorem holdings_emitted:
  "((\<forall>row\<in>set rows. 0 < quantity row) \<and> set (sort_values rows) \<subseteq> set rows \<longrightarrow>
      distinct (map fst (process_rows (sort_values rows) [])) \<and>
      calculate_holdings_fifo sort_values (Some rows) =
        map (\<lambda>(t, ls). \<lparr>h_ticker = t, h_quantity = sum_list (map fst ls),
                          avg_cost_basis =
                            sum_list (map (\<lambda>(q, p). q * p) ls) / sum_list (map fst ls)\<rparr>)
          (filter (\<lambda>(t, ls). ls \<noteq> []) (process_rows (sort_values rows) [])))
   \<and> (\<forall>h\<in>set (calculate_holdings_fifo sort_values df). h_quantity h \<noteq> 0)
   \<and> build_holdings [(x, [(3, 200), (4, 300)])] =
        [\<lparr>h_ticker = x, h_quantity = 7, avg_cost_basis = (3 * 200 + 4 * 300) / 7\<rparr>]"
proof (intro conjI impI ballI)
  show "distinct (map fst (process_rows (sort_values rows) []))"
    by (rule distinct_sorted_rows)
next
  assume a: "(\<forall>row\<in>set rows. 0 < quantity row) \<and> set (sort_values rows) \<subseteq> set rows"
  then have s: "set (sort_values rows) \<subseteq> set rows" by simp
  have p: "lots_positive (process_rows (sort_values rows) [])"
    using a by (intro lots_positive_sorted_rows) simp_all
  have f: "(\<lambda>(t, ls). ls \<noteq> []) = (\<lambda>e :: string \<times> lot list. snd e \<noteq> [])"
    by (simp add: fun_eq_iff)
  show "calculate_holdings_fifo sort_values (Some rows) =
        map (\<lambda>(t, ls). \<lparr>h_ticker = t, h_quantity = sum_list (map fst ls),
                          avg_cost_basis =
                            sum_list (map (\<lambda>(q, p). q * p) ls) / sum_list (map fst ls)\<rparr>)
          (filter (\<lambda>(t, ls). ls \<noteq> []) (process_rows (sort_values rows) []))"
    by (simp only: calculate_holdings_fifo_Some[of sort_values rows, OF s]
        build_holdings_positive[OF p] f holding_of_explicit[symmetric])
next
  fix h assume "h \<in> set (calculate_holdings_fifo sort_values df)"
  then show "h_quantity h \<noteq> 0"
    using calculate_holdings_fifo_quantity[of h sort_values df] by simp
next
  show "build_holdings [(x, [(3, 200), (4, 300)])] =
        [\<lparr>h_ticker = x, h_quantity = 7, avg_cost_basis = (3 * 200 + 4 * 300) / 7\<rparr>]"
    by (simp add: build_holdings_def holding_of_def total_quantity_def total_cost_def)
qed

theorem holdings_emitted_witness:
  "process_rows (sort_key date_key conservation_example) [] =
     [(''X'', [(3, 200)]), (''Y'', []), (''Z'', [(4, 30)])]
   \<and> calculate_holdings_fifo (sort_key date_key) (Some conservation_example) =
       [\<lparr>h_ticker = ''X'', h_quantity = 3, avg_cost_basis = 200\<rparr>,
        \<lparr>h_ticker = ''Z'', h_quantity = 4, avg_cost_basis = 30\<rparr>]"
proof -
  have h: "(\<forall>row\<in>set conservation_example. 0 < quantity row)
           \<and> set (sort_key date_key conservation_example) \<subseteq> set conservation_example"
    by (simp add: conservation_example_def)
  note c = mp[OF conjunct1[OF holdings_emitted[of conservation_example "sort_key date_key"]] h]
  from conjunct2[OF c] show ?thesis
    by (simp add: conservation_example_lots)
qed

text \<open>
  Claim C6. A SELL of more than its ticker holds is no error. The loop ends with an
  empty queue and the excess as the rest, and the row keeps the empty queue and drops
  the rest; the other tickers are untouched. A ticker that has no BUY in the ledger has
  no holding, and a ledger of one SELL of 50 gives no holding at all. The functions are
  total: there is no input on which they fail.
\<close>

theorem oversell_discarded:
  "((\<forall>l\<in>set ls. 0 < fst l) \<and> total_quantity ls < r \<longrightarrow>
      sell_fifo r ls = (r - total_quantity ls, []))
   \<and> (transaction_type row = ''SELL'' \<and> lots_positive lots
        \<and> total_quantity (lots_of lots (ticker row)) < quantity row \<longrightarrow>
        lots_of (process_row row lots) (ticker row) = []
        \<and> (\<forall>t. t \<noteq> ticker row \<longrightarrow> lots_of (process_row row lots) t = lots_of lots t))
   \<and> ((\<forall>row\<in>set rows. ticker row = x \<longrightarrow> transaction_type row \<noteq> ''BUY'')
        \<and> set (sort_values rows) \<subseteq> set rows \<longrightarrow>
        x \<notin> h_ticker ` set (calculate_holdings_fifo sort_values (Some rows)))
   \<and> (mset (sort_values [\<lparr>ticker = x, date = d, transaction_type = ''SELL'',
                            quantity = 50, price = p\<rparr>]) =
        mset [\<lparr>ticker = x, date = d, transaction_type = ''SELL'', quantity = 50, price = p\<rparr>] \<longrightarrow>
        calculate_holdings_fifo sort_values
          (Some [\<lparr>ticker = x, date = d, transaction_type = ''SELL'', quantity = 50, price = p\<rparr>]) = [])"
proof (intro conjI impI)
  assume "(\<forall>l\<in>set ls. 0 < fst l) \<and> total_quantity ls < r"
  then show "sell_fifo r ls = (r - total_quantity ls, [])"
    by (intro sell_fifo_oversell) simp_all
next
  assume a: "transaction_type row = ''SELL'' \<and> lots_positive lots
        \<and> total_quantity (lots_of lots (ticker row)) < quantity row"
  then have "list_all (\<lambda>l. 0 < fst l) (lots_of lots (ticker row))"
    by (intro lots_of_positive) simp
  then have "\<forall>l\<in>set (lots_of lots (ticker row)). 0 < fst l"
    by (simp add: list_all_iff)
  with a have "sell_fifo (quantity row) (lots_of lots (ticker row)) =
                 (quantity row - total_quantity (lots_of lots (ticker row)), [])"
    by (intro sell_fifo_oversell) simp_all
  with a show "lots_of (process_row row lots) (ticker row) = []"
    by (simp add: lots_of_process_row)
next
  show "\<forall>t. t \<noteq> ticker row \<longrightarrow> lots_of (process_row row lots) t = lots_of lots t"
    by (simp add: lots_of_process_row)
next
  assume a: "(\<forall>row\<in>set rows. ticker row = x \<longrightarrow> transaction_type row \<noteq> ''BUY'')
        \<and> set (sort_values rows) \<subseteq> set rows"
  then have s: "set (sort_values rows) \<subseteq> set rows" by simp
  have n: "\<forall>row\<in>set (sort_values rows). ticker row = x \<longrightarrow> transaction_type row \<noteq> ''BUY''"
    using a by blast
  have e: "lots_of (process_rows (sort_values rows) []) x = []"
    by (rule never_bought_process_rows[OF _ n]) (simp add: lots_of_def)
  show "x \<notin> h_ticker ` set (calculate_holdings_fifo sort_values (Some rows))"
  proof
    assume "x \<in> h_ticker ` set (calculate_holdings_fifo sort_values (Some rows))"
    then obtain h where h: "h \<in> set (build_holdings (process_rows (sort_values rows) []))"
      and t: "h_ticker h = x"
      by (auto simp: calculate_holdings_fifo_Some[of sort_values rows, OF s])
    from build_holdings_ticker[OF distinct_sorted_rows h] t e show False
      by (simp add: total_quantity_def)
  qed
next
  let ?s = "\<lparr>ticker = x, date = d, transaction_type = ''SELL'', quantity = 50, price = p\<rparr>"
  assume "mset (sort_values [?s]) = mset [?s]"
  then have "sort_values [?s] = [?s]" by simp
  then show "calculate_holdings_fifo sort_values (Some [?s]) = []"
    by (simp add: fifo_eval)
qed

theorem oversell_discarded_witness:
  "sell_fifo 50 [(10, 100), (5, 200)] = (35, [])
   \<and> lots_of (process_row
        \<lparr>ticker = ''X'', date = Datetime 3, transaction_type = ''SELL'', quantity = 50, price = 1\<rparr>
        [(''X'', [(10, 100), (5, 200)]), (''Z'', [(4, 30)])]) ''X'' = []
   \<and> ''Y'' \<notin> h_ticker ` set (calculate_holdings_fifo (sort_key date_key) (Some conservation_example))
   \<and> calculate_holdings_fifo (sort_key date_key)
        (Some [\<lparr>ticker = ''Y'', date = Datetime 7, transaction_type = ''SELL'', quantity = 50, price = 9\<rparr>]) = []"
proof -
  note t = oversell_discarded[of "[(10, 100), (5, 200)]" 50
      "\<lparr>ticker = ''X'', date = Datetime 3, transaction_type = ''SELL'', quantity = 50, price = 1\<rparr>"
      "[(''X'', [(10, 100), (5, 200)]), (''Z'', [(4, 30)])]" conservation_example "''Y''"
      "sort_key date_key" "Datetime 7" 9]
  have h1: "(\<forall>l\<in>set ([(10, 100), (5, 200)] :: lot list). 0 < fst l)
            \<and> total_quantity [(10, 100), (5, 200)] < 50"
    by (simp add: total_quantity_def)
  have h2: "transaction_type
              \<lparr>ticker = ''X'', date = Datetime 3, transaction_type = ''SELL'', quantity = 50, price = 1\<rparr> = ''SELL''
            \<and> lots_positive [(''X'', [(10, 100), (5, 200)]), (''Z'', [(4, 30)])]
            \<and> total_quantity (lots_of [(''X'', [(10, 100), (5, 200)]), (''Z'', [(4, 30)])]
                 (ticker \<lparr>ticker = ''X'', date = Datetime 3, transaction_type = ''SELL'', quantity = 50, price = 1\<rparr>))
               < quantity \<lparr>ticker = ''X'', date = Datetime 3, transaction_type = ''SELL'', quantity = 50, price = 1\<rparr>"
    by (simp add: lots_positive_def lots_of_def total_quantity_def)
  have h3: "(\<forall>row\<in>set conservation_example. ticker row = ''Y'' \<longrightarrow> transaction_type row \<noteq> ''BUY'')
        \<and> set (sort_key date_key conservation_example) \<subseteq> set conservation_example"
    by (simp add: conservation_example_def)
  have h4: "mset (sort_key date_key [\<lparr>ticker = ''Y'', date = Datetime 7, transaction_type = ''SELL'',
                            quantity = 50, price = 9\<rparr>]) =
        mset [\<lparr>ticker = ''Y'', date = Datetime 7, transaction_type = ''SELL'', quantity = 50, price = 9\<rparr>]"
    by simp
  note c1 = mp[OF conjunct1[OF t] h1]
  note c2 = mp[OF conjunct1[OF conjunct2[OF t]] h2]
  note c3 = mp[OF conjunct1[OF conjunct2[OF conjunct2[OF t]]] h3]
  note c4 = mp[OF conjunct2[OF conjunct2[OF conjunct2[OF t]]] h4]
  from c1 c2 c3 c4 show ?thesis
    by (simp add: total_quantity_def)
qed

section \<open>The claim about the valuation\<close>

text \<open>
  Claim C8. For holdings that are not empty and an empty price dict,
  \<^verbatim>\<open>calculate_portfolio_value\<close> returns one row for each holding and none of them is
  valued: price, value and profit are missing in every row, so the rows with a value are
  none. The function is total.
\<close>

theorem empty_prices_value_nothing:
  "holdings_df \<noteq> [] \<longrightarrow>
     length (calculate_portfolio_value holdings_df Map.empty) = length holdings_df
     \<and> (\<forall>v\<in>set (calculate_portfolio_value holdings_df Map.empty).
           current_price v = None \<and> current_value v = None \<and> unrealized_pl v = None
           \<and> unrealized_pl_percent v = NaN)
     \<and> filter (\<lambda>v. current_value v \<noteq> None) (calculate_portfolio_value holdings_df Map.empty) = []"
  by (auto simp: calculate_portfolio_value_def value_row_empty filter_empty_conv)

theorem empty_prices_value_nothing_witness:
  "calculate_portfolio_value
     [\<lparr>h_ticker = ''AAPL'', h_quantity = 7, avg_cost_basis = 150\<rparr>,
      \<lparr>h_ticker = ''MSFT'', h_quantity = 5, avg_cost_basis = 280\<rparr>] Map.empty =
     [\<lparr>h_ticker = ''AAPL'', h_quantity = 7, avg_cost_basis = 150,
       current_price = None, current_value = None, unrealized_pl = None,
       unrealized_pl_percent = NaN\<rparr>,
      \<lparr>h_ticker = ''MSFT'', h_quantity = 5, avg_cost_basis = 280,
       current_price = None, current_value = None, unrealized_pl = None,
       unrealized_pl_percent = NaN\<rparr>]
   \<and> filter (\<lambda>v. current_value v \<noteq> None)
        (calculate_portfolio_value
          [\<lparr>h_ticker = ''AAPL'', h_quantity = 7, avg_cost_basis = 150\<rparr>,
           \<lparr>h_ticker = ''MSFT'', h_quantity = 5, avg_cost_basis = 280\<rparr>] Map.empty) = []"
  using empty_prices_value_nothing[of
      "[\<lparr>h_ticker = ''AAPL'', h_quantity = 7, avg_cost_basis = 150\<rparr>,
        \<lparr>h_ticker = ''MSFT'', h_quantity = 5, avg_cost_basis = 280\<rparr>]"]
  by (simp add: calculate_portfolio_value_def value_row_empty)

section \<open>The claims about the return analytics\<close>



text \<open>
  Claim C5. \<^verbatim>\<open>calculate_xirr\<close> returns \<^verbatim>\<open>None\<close> for no frame and for fewer than two cash
  flows. With two or more, once the days of the dates have been taken, so that the
  solvers are reached: it returns \<^verbatim>\<open>None\<close> when both solvers raise, when Newton's method
  returns NaN or an infinity, and when Newton's method raises and \<^verbatim>\<open>brentq\<close> returns NaN
  or an infinity; and when Newton's method, seeded at \<open>1 / 10\<close>, raises, the result is
  decided by \<^verbatim>\<open>brentq\<close> on the interval from \<open>-999 / 1000\<close> to \<open>10\<close> and by nothing else.
  No raise of a solver leaves the function. For rows that hold datetimes the function
  always returns; what leaves it otherwise is what taking the days raised, before the
  solvers.
\<close>

theorem xirr_undefined_cases:
  "calculate_xirr newton brentq now None current_val = Inr None
   \<and> (length (fst (xirr_cash_flows now rows current_val)) < 2 \<longrightarrow>
        calculate_xirr newton brentq now (Some rows) current_val = Inr None)
   \<and> (rows \<noteq> [] \<and> xirr_cash_flows now rows current_val = (cash_flows, dates)
        \<and> 2 \<le> length cash_flows \<and> xirr_days dates = Inr days \<longrightarrow>
        (let f = xirr_equation cash_flows days;
             result = calculate_xirr newton brentq now (Some rows) current_val
         in (newton f (1 / 10) = Raised \<and> brentq f (- (999 / 1000)) 10 = Raised \<longrightarrow>
               result = Inr None)
            \<and> (newton f (1 / 10) = Returned NaN \<or> newton f (1 / 10) = Returned Inf \<longrightarrow>
               result = Inr None)
            \<and> (newton f (1 / 10) = Raised
                 \<and> (brentq f (- (999 / 1000)) 10 = Returned NaN
                      \<or> brentq f (- (999 / 1000)) 10 = Returned Inf) \<longrightarrow>
               result = Inr None)
            \<and> (newton f (1 / 10) = Raised \<longrightarrow>
               result =
                 Inr (case brentq f (- (999 / 1000)) 10 of
                        Raised \<Rightarrow> None
                      | Returned x \<Rightarrow>
                          (case x of Finite r \<Rightarrow> Some (r * 100) | Inf \<Rightarrow> None | NaN \<Rightarrow> None)))))
   \<and> (list_all (\<lambda>row. is_datetime (date row)) rows \<longrightarrow>
        (\<exists>x. calculate_xirr newton brentq now (Some rows) current_val = Inr x))
   \<and> (rows \<noteq> [] \<and> xirr_cash_flows now rows current_val = (cash_flows, dates)
        \<and> 2 \<le> length cash_flows \<and> xirr_days dates = Inl e \<longrightarrow>
        calculate_xirr newton brentq now (Some rows) current_val = Inl e)"
proof (intro conjI impI)
  show "calculate_xirr newton brentq now None current_val = Inr None"
    by (simp add: calculate_xirr_def)
next
  assume "length (fst (xirr_cash_flows now rows current_val)) < 2"
  then show "calculate_xirr newton brentq now (Some rows) current_val = Inr None"
    by (rule calculate_xirr_few)
next
  assume a: "rows \<noteq> [] \<and> xirr_cash_flows now rows current_val = (cash_flows, dates)
        \<and> 2 \<le> length cash_flows \<and> xirr_days dates = Inr days"
  then have "calculate_xirr newton brentq now (Some rows) current_val =
          (case xirr_days dates of
             Inl e \<Rightarrow> Inl e
           | Inr days \<Rightarrow> Inr (solve_rate newton brentq (xirr_equation cash_flows days)))"
    by (intro calculate_xirr_solve) simp_all
  with a have s: "calculate_xirr newton brentq now (Some rows) current_val =
          Inr (solve_rate newton brentq (xirr_equation cash_flows days))"
    by simp
  show "let f = xirr_equation cash_flows days;
             result = calculate_xirr newton brentq now (Some rows) current_val
         in (newton f (1 / 10) = Raised \<and> brentq f (- (999 / 1000)) 10 = Raised \<longrightarrow>
               result = Inr None)
            \<and> (newton f (1 / 10) = Returned NaN \<or> newton f (1 / 10) = Returned Inf \<longrightarrow>
               result = Inr None)
            \<and> (newton f (1 / 10) = Raised
                 \<and> (brentq f (- (999 / 1000)) 10 = Returned NaN
                      \<or> brentq f (- (999 / 1000)) 10 = Returned Inf) \<longrightarrow>
               result = Inr None)
            \<and> (newton f (1 / 10) = Raised \<longrightarrow>
               result =
                 Inr (case brentq f (- (999 / 1000)) 10 of
                        Raised \<Rightarrow> None
                      | Returned x \<Rightarrow>
                          (case x of Finite r \<Rightarrow> Some (r * 100) | Inf \<Rightarrow> None | NaN \<Rightarrow> None)))"
    unfolding Let_def s solve_rate_def
    by (auto simp: checked_percent_simps checked_percent_case split: solver_outcome.splits)
next
  assume "list_all (\<lambda>row. is_datetime (date row)) rows"
  then show "\<exists>x. calculate_xirr newton brentq now (Some rows) current_val = Inr x"
    by (rule calculate_xirr_returns)
next
  assume a: "rows \<noteq> [] \<and> xirr_cash_flows now rows current_val = (cash_flows, dates)
        \<and> 2 \<le> length cash_flows \<and> xirr_days dates = Inl e"
  then have "calculate_xirr newton brentq now (Some rows) current_val =
          (case xirr_days dates of
             Inl e \<Rightarrow> Inl e
           | Inr days \<Rightarrow> Inr (solve_rate newton brentq (xirr_equation cash_flows days)))"
    by (intro calculate_xirr_solve) simp_all
  with a show "calculate_xirr newton brentq now (Some rows) current_val = Inl e"
    by simp
qed

theorem xirr_undefined_cases_witness:
  "calculate_xirr seed_if_root_newton always_raises_brentq 0 (Some one_year_rows) 0 = Inr None
   \<and> xirr_days [Datetime 0, Datetime 0] = Inr [0, 0]
   \<and> seed_if_root_newton (xirr_equation [- 1000, - 500] [0, 0]) (1 / 10) = Raised
   \<and> calculate_xirr seed_if_root_newton always_raises_brentq 0 (Some same_day_rows) 0 = Inr None"
proof -
  note t1 = xirr_undefined_cases[of seed_if_root_newton always_raises_brentq 0 0 one_year_rows]
  have "length (fst (xirr_cash_flows 0 one_year_rows 0)) < 2"
    by (simp add: xirr_cash_flows_def one_year_rows_def)
  note c1 = mp[OF conjunct1[OF conjunct2[OF t1]] this]
  note t2 = xirr_undefined_cases[of seed_if_root_newton always_raises_brentq 0 0 same_day_rows
      "[- 1000, - 500]" "[Datetime 0, Datetime 0]" "[0, 0]"]
  have h: "same_day_rows \<noteq> []
           \<and> xirr_cash_flows 0 same_day_rows 0 = ([- 1000, - 500], [Datetime 0, Datetime 0])
           \<and> 2 \<le> length [- 1000, - 500 :: real]
           \<and> xirr_days [Datetime 0, Datetime 0] = Inr [0, 0]"
    by (simp add: same_day_flows same_day_days) (simp add: same_day_rows_def)
  have n: "seed_if_root_newton (xirr_equation [- 1000, - 500] [0, 0]) (1 / 10) = Raised"
    by (simp add: seed_if_root_newton_def same_day_no_root)
  have b: "always_raises_brentq (xirr_equation [- 1000, - 500] [0, 0]) (- (999 / 1000)) 10 = Raised"
    by (simp add: always_raises_brentq_def)
  from mp[OF conjunct1[OF conjunct2[OF conjunct2[OF t2]]] h] n b
  have c2: "calculate_xirr seed_if_root_newton always_raises_brentq 0 (Some same_day_rows) 0 = Inr None"
    by (simp add: Let_def)
  show ?thesis
    by (rule conjI[OF c1 conjI[OF same_day_days conjI[OF n c2]]])
qed



text \<open>
  Claim C10. When the transactions or the holdings are \<^verbatim>\<open>None\<close>,
  \<^verbatim>\<open>calculate_portfolio_metrics\<close> returns, and raises nothing, the metrics it starts with:
  every number 0 and no XIRR.
\<close>

theorem metrics_of_none:
  "calculate_portfolio_metrics newton brentq now None holdings_df =
     Inr \<lparr>total_investment = 0, total_sells = 0, m_current_value = 0, total_return = 0,
          total_return_percent = 0, xirr = None\<rparr>
   \<and> calculate_portfolio_metrics newton brentq now transactions_df None =
     Inr \<lparr>total_investment = 0, total_sells = 0, m_current_value = 0, total_return = 0,
          total_return_percent = 0, xirr = None\<rparr>"
  by (simp add: calculate_portfolio_metrics_def initial_metrics_def split: option.splits)

theorem metrics_of_none_witness:
  "calculate_portfolio_metrics always_raises_newton always_raises_brentq 9 None (Some metrics_holdings) =
     Inr \<lparr>total_investment = 0, total_sells = 0, m_current_value = 0, total_return = 0,
          total_return_percent = 0, xirr = None\<rparr>
   \<and> calculate_portfolio_metrics always_raises_newton always_raises_brentq 9 (Some metrics_rows) None =
     Inr \<lparr>total_investment = 0, total_sells = 0, m_current_value = 0, total_return = 0,
          total_return_percent = 0, xirr = None\<rparr>"
  by (rule metrics_of_none)

end
